theory Spec2Isabelle
  imports Complex_Main
begin

section \<open>Scalars\<close>

text \<open>
  The entries of a tensor are floating-point numbers. They are modelled as exact real
  numbers extended with the three special values of IEEE arithmetic: the two infinities
  and NaN. Finite values are computed exactly (no rounding, no overflow, one zero); the
  special values follow the IEEE rules, so that a division by zero is a value of the
  model (\<open>0/0\<close> is NaN, \<open>x/0\<close> is an infinity) and not an unspecified number.
\<close>

datatype scalar = Fin real | PInf | NInf | NaN

fun smul :: "scalar \<Rightarrow> scalar \<Rightarrow> scalar" where
  "smul (Fin a) (Fin b) = Fin (a * b)"
| "smul NaN y = NaN"
| "smul x NaN = NaN"
| "smul (Fin a) PInf = (if a = 0 then NaN else if 0 < a then PInf else NInf)"
| "smul (Fin a) NInf = (if a = 0 then NaN else if 0 < a then NInf else PInf)"
| "smul PInf (Fin b) = (if b = 0 then NaN else if 0 < b then PInf else NInf)"
| "smul NInf (Fin b) = (if b = 0 then NaN else if 0 < b then NInf else PInf)"
| "smul PInf PInf = PInf"
| "smul PInf NInf = NInf"
| "smul NInf PInf = NInf"
| "smul NInf NInf = PInf"

fun sadd :: "scalar \<Rightarrow> scalar \<Rightarrow> scalar" where
  "sadd (Fin a) (Fin b) = Fin (a + b)"
| "sadd NaN y = NaN"
| "sadd x NaN = NaN"
| "sadd PInf NInf = NaN"
| "sadd NInf PInf = NaN"
| "sadd PInf y = PInf"
| "sadd x PInf = PInf"
| "sadd NInf y = NInf"
| "sadd x NInf = NInf"

fun sdiv :: "scalar \<Rightarrow> scalar \<Rightarrow> scalar" where
  "sdiv (Fin a) (Fin b) =
     (if b = 0 then (if a = 0 then NaN else if 0 < a then PInf else NInf)
      else Fin (a / b))"
| "sdiv NaN y = NaN"
| "sdiv x NaN = NaN"
| "sdiv (Fin a) PInf = Fin 0"
| "sdiv (Fin a) NInf = Fin 0"
| "sdiv PInf (Fin b) = (if 0 \<le> b then PInf else NInf)"
| "sdiv NInf (Fin b) = (if 0 \<le> b then NInf else PInf)"
| "sdiv PInf PInf = NaN"
| "sdiv PInf NInf = NaN"
| "sdiv NInf PInf = NaN"
| "sdiv NInf NInf = NaN"

fun ssqrt :: "scalar \<Rightarrow> scalar" where
  "ssqrt (Fin a) = (if a < 0 then NaN else Fin (sqrt a))"
| "ssqrt PInf = PInf"
| "ssqrt NInf = NaN"
| "ssqrt NaN = NaN"

text \<open>The sum of the entries of one slice, accumulated from zero.\<close>

definition ssum :: "scalar list \<Rightarrow> scalar" where
  "ssum v = foldl sadd (Fin 0) v"

section \<open>Tensors\<close>

text \<open>
  A tensor of rank at least one is a nested list: \<open>Vec\<close> is a one-dimensional array
  (one slice along the last axis), \<open>Stack\<close> lists the sub-tensors along a leading axis.
  Rank-zero arrays are outside the type. An array of the frameworks is rectangular; the
  functions below do not depend on it.
\<close>

datatype tensor = Vec "scalar list" | Stack "tensor list"

text \<open>
  \<open>ShapeError\<close> is the exception of the frameworks for operands whose shapes do not fit.
  \<open>OutsideModel\<close> marks an operand that the frameworks accept and this development does
  not cover: a tensor of rank above two in a matrix product, and a layer applied to
  another number of tensors than one.
\<close>

datatype error = ShapeError | OutsideModel

fun rank :: "tensor \<Rightarrow> nat" where
  "rank (Vec v) = 1"
| "rank (Stack []) = 2"
| "rank (Stack (t # ts)) = Suc (rank t)"


text \<open>The slices along the last axis, in row-major order.\<close>

fun slices :: "tensor \<Rightarrow> scalar list list" where
  "slices (Vec v) = [v]"
| "slices (Stack ts) = concat (map slices ts)"

text \<open>The first error of a list of results, or all the values.\<close>

fun collect :: "(error + 'a) list \<Rightarrow> error + 'a list" where
  "collect [] = Inr []"
| "collect (Inl e # rs) = Inl e"
| "collect (Inr x # rs) = (case collect rs of Inl e \<Rightarrow> Inl e | Inr xs \<Rightarrow> Inr (x # xs))"

definition stacked :: "(error + tensor) list \<Rightarrow> error + tensor" where
  "stacked rs = (case collect rs of Inl e \<Rightarrow> Inl e | Inr ts \<Rightarrow> Inr (Stack ts))"

text \<open>
  An elementwise binary operator with the broadcasting rule of the array libraries:
  the shapes are aligned at the last axis, a missing leading axis is added to the
  operand of lower rank, and along each axis the two lengths are equal or one of them
  is 1; anything else raises.
\<close>

function broadcast :: "(scalar \<Rightarrow> scalar \<Rightarrow> scalar) \<Rightarrow> tensor \<Rightarrow> tensor \<Rightarrow> error + tensor" where
  "broadcast f (Vec xs) (Vec ys) =
     (if length xs = length ys then Inr (Vec (map2 f xs ys))
      else (case ys of
              [y] \<Rightarrow> Inr (Vec (map (\<lambda>a. f a y) xs))
            | _ \<Rightarrow> (case xs of
                      [x] \<Rightarrow> Inr (Vec (map (f x) ys))
                    | _ \<Rightarrow> Inl ShapeError)))"
| "broadcast f (Vec xs) (Stack us) = stacked (map (\<lambda>u. broadcast f (Vec xs) u) us)"
| "broadcast f (Stack ts) (Vec ys) = stacked (map (\<lambda>t. broadcast f t (Vec ys)) ts)"
| "broadcast f (Stack ts) (Stack us) =
     (if rank (Stack ts) < rank (Stack us)
        then stacked (map (\<lambda>u. broadcast f (Stack ts) u) us)
      else if rank (Stack us) < rank (Stack ts)
        then stacked (map (\<lambda>t. broadcast f t (Stack us)) ts)
      else if length ts = length us
        then stacked (map (\<lambda>(t, u). broadcast f t u) (zip ts us))
      else (case us of
              [u] \<Rightarrow> stacked (map (\<lambda>t. broadcast f t u) ts)
            | _ \<Rightarrow> (case ts of
                      [t] \<Rightarrow> stacked (map (\<lambda>u. broadcast f t u) us)
                    | _ \<Rightarrow> Inl ShapeError)))"
  by pat_completeness auto
termination
proof -
  have mem: "size t < Suc (size_list size ts)" if "t \<in> set ts" for t :: tensor and ts
    using that by (simp add: less_Suc_eq_le size_list_estimation')
  have zmem: "size t + size u < Suc (Suc (size_list size ts + size_list size us))"
    if "(t, u) \<in> set (zip ts us)" for t u :: tensor and ts us
    using mem[OF set_zip_leftD[OF that]] mem[OF set_zip_rightD[OF that]] by simp
  show ?thesis
    by (relation "measure (\<lambda>(f, a, b). size a + size b)")
       (auto intro: zmem dest!: mem)
qed

text \<open>An elementwise unary function, and the sum along the last axis with
  \<open>keepdims=True\<close>: every slice is replaced by the one-element slice of its sum.\<close>

fun tmap :: "(scalar \<Rightarrow> scalar) \<Rightarrow> tensor \<Rightarrow> tensor" where
  "tmap g (Vec v) = Vec (map g v)"
| "tmap g (Stack ts) = Stack (map (tmap g) ts)"

fun sum_last_keepdims :: "tensor \<Rightarrow> tensor" where
  "sum_last_keepdims (Vec v) = Vec [ssum v]"
| "sum_last_keepdims (Stack ts) = Stack (map sum_last_keepdims ts)"

definition multiply :: "tensor \<Rightarrow> tensor \<Rightarrow> error + tensor" where
  "multiply = broadcast smul"

definition divide :: "tensor \<Rightarrow> tensor \<Rightarrow> error + tensor" where
  "divide = broadcast sdiv"

definition sqrt_t :: "tensor \<Rightarrow> tensor" where
  "sqrt_t = tmap ssqrt"

section \<open>L2 normalization\<close>

text \<open>
  \<^verbatim>\<open>def normalize(x):
    return x / np.sqrt(np.sum(x * x, axis=-1, keepdims=True))\<close>
  and the same expression over the second framework:
  \<^verbatim>\<open>def normalize2(x):
    return x / torch.sqrt(torch.sum(x * x, axis=-1, keepdims=True))\<close>
\<close>

definition normalize :: "tensor \<Rightarrow> error + tensor" where
  "normalize x =
     (case multiply x x of
        Inl e \<Rightarrow> Inl e
      | Inr xx \<Rightarrow> divide x (sqrt_t (sum_last_keepdims xx)))"

definition normalize2 :: "tensor \<Rightarrow> error + tensor" where
  "normalize2 x =
     (case multiply x x of
        Inl e \<Rightarrow> Inl e
      | Inr xx \<Rightarrow> divide x (sqrt_t (sum_last_keepdims xx)))"

text \<open>
  The same function in the words of its description: every slice along the last axis is
  divided, entry by entry, by its L2 norm, the square root of the sum of its squares.
\<close>

definition sum_squares :: "scalar list \<Rightarrow> scalar" where
  "sum_squares v = ssum (map (\<lambda>a. smul a a) v)"

definition l2_norm :: "scalar list \<Rightarrow> scalar" where
  "l2_norm v = ssqrt (sum_squares v)"

definition unit_slice :: "scalar list \<Rightarrow> scalar list" where
  "unit_slice v = map (\<lambda>a. sdiv a (l2_norm v)) v"

fun map_slices :: "(scalar list \<Rightarrow> scalar list) \<Rightarrow> tensor \<Rightarrow> tensor" where
  "map_slices F (Vec v) = Vec (F v)"
| "map_slices F (Stack ts) = Stack (map (map_slices F) ts)"

fun is_fin :: "scalar \<Rightarrow> bool" where
  "is_fin (Fin a) = True"
| "is_fin x = False"

definition finite_slice :: "scalar list \<Rightarrow> bool" where
  "finite_slice v = list_all is_fin v"

section \<open>Cosine similarity\<close>

text \<open>
  \<^verbatim>\<open>def cosine_similarity(x1,x2):
    return x1 @ x2.T\<close>
  The attribute \<open>.T\<close> of a two-dimensional tensor is a view of the same entries with the
  axes swapped: the rows of the tensor are the columns of its transpose. On a
  one-dimensional tensor it is the tensor itself. The operator \<open>@\<close> is the matrix product
  for operands of rank one and two; it raises when the inner lengths differ. Operands of
  higher rank are outside the model. A nested list with an axis of length 0 does not
  record the lengths of the axes inside it, and is read with the lengths that fit.
\<close>

fun vec_rows :: "tensor list \<Rightarrow> scalar list list option" where
  "vec_rows [] = Some []"
| "vec_rows (Vec v # ts) = (case vec_rows ts of None \<Rightarrow> None | Some rs \<Rightarrow> Some (v # rs))"
| "vec_rows (Stack us # ts) = None"

fun rows_of :: "tensor \<Rightarrow> scalar list list option" where
  "rows_of (Vec v) = None"
| "rows_of (Stack ts) = vec_rows ts"

datatype transposed = Same "scalar list" | Columns "scalar list list"

datatype product = Number scalar | Array tensor

definition dot :: "scalar list \<Rightarrow> scalar list \<Rightarrow> scalar" where
  "dot u v = ssum (map2 smul u v)"

fun T :: "tensor \<Rightarrow> error + transposed" where
  "T (Vec v) = Inr (Same v)"
| "T (Stack ts) =
     (case vec_rows ts of None \<Rightarrow> Inl OutsideModel | Some rs \<Rightarrow> Inr (Columns rs))"

fun matmul :: "tensor \<Rightarrow> transposed \<Rightarrow> error + product" where
  "matmul (Vec u) (Same v) =
     (if length u = length v then Inr (Number (dot u v)) else Inl ShapeError)"
| "matmul (Vec u) (Columns cs) =
     (if list_all (\<lambda>c. length u = length c) cs
      then Inr (Array (Vec (map (\<lambda>c. dot u c) cs)))
      else Inl ShapeError)"
| "matmul (Stack ts) (Same v) =
     (case vec_rows ts of
        None \<Rightarrow> Inl OutsideModel
      | Some rs \<Rightarrow>
          if list_all (\<lambda>r. length r = length v) rs
          then Inr (Array (Vec (map (\<lambda>r. dot r v) rs)))
          else Inl ShapeError)"
| "matmul (Stack ts) (Columns cs) =
     (case vec_rows ts of
        None \<Rightarrow> Inl OutsideModel
      | Some rs \<Rightarrow>
          if list_all (\<lambda>r. list_all (\<lambda>c. length r = length c) cs) rs
          then Inr (Array (Stack (map (\<lambda>r. Vec (map (\<lambda>c. dot r c) cs)) rs)))
          else Inl ShapeError)"

definition cosine_similarity :: "tensor \<Rightarrow> tensor \<Rightarrow> error + product" where
  "cosine_similarity x1 x2 =
     (case T x2 of Inl e \<Rightarrow> Inl e | Inr x2T \<Rightarrow> matmul x1 x2T)"

text \<open>The cosine of the angle between two vectors: their dot product divided by the
  product of their L2 norms.\<close>

definition cosine :: "scalar list \<Rightarrow> scalar list \<Rightarrow> scalar" where
  "cosine u v = sdiv (dot u v) (smul (l2_norm u) (l2_norm v))"

section \<open>The encoder and the Siamese model over the second framework\<close>

text \<open>
  The layers are the framework's: an embedding module and an LSTM module, each holding
  its weights, and the mean of a tensor along an axis. What they compute is a parameter
  of the model, the record \<open>torch\<close>: the constructors of the two modules (with their
  initial weights), their calls, and \<open>mean\<close>. A call of the framework may raise.
\<close>

record nn_Embedding =
  weight :: tensor

record nn_LSTM =
  weight_ih_l0 :: tensor
  weight_hh_l0 :: tensor
  bias_ih_l0 :: tensor
  bias_hh_l0 :: tensor

record 'h torch =
  new_Embedding :: "nat \<Rightarrow> nat \<Rightarrow> nn_Embedding"
  new_LSTM :: "nat \<Rightarrow> nat \<Rightarrow> nn_LSTM"
  call_Embedding :: "nn_Embedding \<Rightarrow> tensor \<Rightarrow> error + tensor"
  call_LSTM :: "nn_LSTM \<Rightarrow> tensor \<Rightarrow> error + tensor \<times> 'h"
  mean :: "tensor \<Rightarrow> int \<Rightarrow> error + tensor"

text \<open>
  \<^verbatim>\<open>class Sub(nn.Module):
    def __init__(self,vocab_size, model_dimension):
        super().__init__()
        self.vocab_size = vocab_size
        self.model_dimension = model_dimension
        self.embed = nn.Embedding(num_embeddings=vocab_size, embedding_dim=model_dimension)
        self.lstm = nn.LSTM(input_size=model_dimension, hidden_size=model_dimension)

    def forward(self,x):
        x = self.embed(x)
        x, hidden = self.lstm(x)
        x = x.mean(axis=1)
        x = normalize2(x)
        return x\<close>
\<close>

record module =
  vocab_size :: nat
  model_dimension :: nat

record Sub = module +
  embed :: nn_Embedding
  lstm :: nn_LSTM

definition Sub_init :: "'h torch \<Rightarrow> nat \<Rightarrow> nat \<Rightarrow> Sub" where
  "Sub_init lib vs md =
     \<lparr>vocab_size = vs, model_dimension = md,
      embed = new_Embedding lib vs md, lstm = new_LSTM lib md md\<rparr>"

definition Sub_forward :: "'h torch \<Rightarrow> Sub \<Rightarrow> tensor \<Rightarrow> error + tensor" where
  "Sub_forward lib self x =
     (case call_Embedding lib (embed self) x of
        Inl e \<Rightarrow> Inl e
      | Inr x \<Rightarrow>
          (case call_LSTM lib (lstm self) x of
             Inl e \<Rightarrow> Inl e
           | Inr (x, hidden) \<Rightarrow>
               (case mean lib x 1 of
                  Inl e \<Rightarrow> Inl e
                | Inr x \<Rightarrow> normalize2 x)))"

text \<open>
  \<^verbatim>\<open>class Siamese(nn.Module):
    def __init__(self, vocab_size, model_dimension):
        super().__init__()
        self.vocab_size = vocab_size
        self.model_dimension = model_dimension
        self.sub = Sub(vocab_size, model_dimension)

    def forward(self,x1,x2):
        x1 = self.sub(x1)
        x2 = self.sub(x2)
        return cosine_similarity(x1, x2)\<close>
\<close>

record Siamese = module +
  sub :: Sub

definition Siamese_init :: "'h torch \<Rightarrow> nat \<Rightarrow> nat \<Rightarrow> Siamese" where
  "Siamese_init lib vs md =
     \<lparr>vocab_size = vs, model_dimension = md, sub = Sub_init lib vs md\<rparr>"

definition Siamese_forward :: "'h torch \<Rightarrow> Siamese \<Rightarrow> tensor \<Rightarrow> tensor \<Rightarrow> error + product" where
  "Siamese_forward lib self x1 x2 =
     (case Sub_forward lib (sub self) x1 of
        Inl e \<Rightarrow> Inl e
      | Inr x1 \<Rightarrow>
          (case Sub_forward lib (sub self) x2 of
             Inl e \<Rightarrow> Inl e
           | Inr x2 \<Rightarrow> cosine_similarity x1 x2))"






text \<open>A result followed by the computation that uses it; an error ends the chain.\<close>

definition and_then :: "error + 'a \<Rightarrow> ('a \<Rightarrow> error + 'b) \<Rightarrow> error + 'b" where
  "and_then r k = (case r of Inl e \<Rightarrow> Inl e | Inr a \<Rightarrow> k a)"


section \<open>The encoder and the Siamese model over the first framework\<close>

text \<open>
  A layer is a description: the embedding, the recurrent layer and the mean are the
  framework's, \<open>Fn\<close> wraps a function of this program, \<open>Serial\<close> and \<open>Parallel\<close>
  combine layers. The record \<open>trax\<close> holds what the framework's three layers compute
  (with their weights). \<open>Serial\<close> composes its layers in the order of the list;
  \<open>Parallel\<close> applies its layers to its inputs, the i-th layer to the i-th input.
  The layers of this program take one tensor each; other arities are outside the model.
\<close>

datatype layer =
    tl_Embedding nat nat
  | tl_LSTM nat
  | tl_Mean int
  | tl_Fn string "tensor \<Rightarrow> error + tensor"
  | tl_Serial "layer list"
  | tl_Parallel "layer list"

record trax =
  apply_Embedding :: "nat \<Rightarrow> nat \<Rightarrow> tensor \<Rightarrow> error + tensor"
  apply_LSTM :: "nat \<Rightarrow> tensor \<Rightarrow> error + tensor"
  apply_Mean :: "int \<Rightarrow> tensor \<Rightarrow> error + tensor"

definition on_one :: "(tensor \<Rightarrow> error + tensor) \<Rightarrow> tensor list \<Rightarrow> error + tensor list" where
  "on_one g xs =
     (case xs of
        [x] \<Rightarrow> (case g x of Inl e \<Rightarrow> Inl e | Inr y \<Rightarrow> Inr [y])
      | _ \<Rightarrow> Inl OutsideModel)"

fun run :: "trax \<Rightarrow> layer \<Rightarrow> tensor list \<Rightarrow> error + tensor list"
  and run_serial :: "trax \<Rightarrow> layer list \<Rightarrow> tensor list \<Rightarrow> error + tensor list"
  and run_parallel :: "trax \<Rightarrow> layer list \<Rightarrow> tensor list \<Rightarrow> error + tensor list"
where
  "run lib (tl_Embedding v d) xs = on_one (apply_Embedding lib v d) xs"
| "run lib (tl_LSTM n) xs = on_one (apply_LSTM lib n) xs"
| "run lib (tl_Mean a) xs = on_one (apply_Mean lib a) xs"
| "run lib (tl_Fn name g) xs = on_one g xs"
| "run lib (tl_Serial ls) xs = run_serial lib ls xs"
| "run lib (tl_Parallel ls) xs = run_parallel lib ls xs"
| "run_serial lib [] xs = Inr xs"
| "run_serial lib (l # ls) xs =
     (case run lib l xs of Inl e \<Rightarrow> Inl e | Inr ys \<Rightarrow> run_serial lib ls ys)"
| "run_parallel lib [] [] = Inr []"
| "run_parallel lib (l # ls) (x # xs) =
     (case run lib l [x] of
        Inl e \<Rightarrow> Inl e
      | Inr ys \<Rightarrow>
          (case run_parallel lib ls xs of Inl e \<Rightarrow> Inl e | Inr zs \<Rightarrow> Inr (ys @ zs)))"
| "run_parallel lib [] (x # xs) = Inl OutsideModel"
| "run_parallel lib (l # ls) [] = Inl OutsideModel"





section \<open>Frameworks whose layers return their input\<close>

text \<open>With these two the encoder and the Siamese model run on concrete tensors: every
  layer of the framework is the identity, so that an encoder is the normalization.\<close>

definition identity_torch :: "unit torch" where
  "identity_torch =
     \<lparr>new_Embedding = (\<lambda>n d. \<lparr>weight = Stack (replicate n (Vec (replicate d (Fin 0))))\<rparr>),
      new_LSTM = (\<lambda>i h. \<lparr>weight_ih_l0 = Stack [], weight_hh_l0 = Stack [],
                           bias_ih_l0 = Vec [], bias_hh_l0 = Vec []\<rparr>),
      call_Embedding = (\<lambda>m x. Inr x),
      call_LSTM = (\<lambda>m x. Inr (x, ())),
      mean = (\<lambda>x axis. Inr x)\<rparr>"


section \<open>Listing the layers\<close>

text \<open>
  \<^verbatim>\<open>def show_layers(model, layer_prefix):
    print(f"Total layers: {len(model.sublayers)}\n")
    for i in range(len(model.sublayers)):
        print('========')
        print(f'{layer_prefix}_{i}: {model.sublayers[i]}\n')\<close>
  The model is any object with a list \<open>sublayers\<close>; the text of a layer is the
  framework's, the parameter \<open>str\<close>. Standard output is the string of the characters
  written so far; \<open>print\<close> writes its argument and a newline. The function returns the
  model as the call leaves it, and the output.
\<close>

record 'l model =
  sublayers :: "'l list"

definition newline :: string where
  "newline = [CHR 0x0A]"

definition print :: "string \<Rightarrow> string \<Rightarrow> string" where
  "print s out = out @ s @ newline"

function str_nat :: "nat \<Rightarrow> string" where
  "str_nat n =
     (if n < 10 then [''0123456789'' ! n]
      else str_nat (n div 10) @ [''0123456789'' ! (n mod 10)])"
  by pat_completeness auto
termination
  by (relation "measure id") auto

function show_loop :: "('l \<Rightarrow> string) \<Rightarrow> 'l model \<Rightarrow> string \<Rightarrow> nat \<Rightarrow> string \<Rightarrow> string" where
  "show_loop str m layer_prefix i out =
     (if i < length (sublayers m)
      then show_loop str m layer_prefix (Suc i)
             (print (layer_prefix @ ''_'' @ str_nat i @ '': '' @ str (sublayers m ! i) @ newline)
                (print ''========'' out))
      else out)"
  by pat_completeness auto
termination
  by (relation "measure (\<lambda>(str, m, p, i, out). length (sublayers m) - i)") auto

definition show_layers :: "('l \<Rightarrow> string) \<Rightarrow> 'l model \<Rightarrow> string \<Rightarrow> string \<Rightarrow> 'l model \<times> string" where
  "show_layers str m layer_prefix out =
     (m, show_loop str m layer_prefix 0
           (print (''Total layers: '' @ str_nat (length (sublayers m)) @ newline) out))"

text \<open>What is written for the layer of index \<open>i\<close>: the separator line, then the line
  with the prefix, the index and the text of the layer, then an empty line.\<close>

definition layer_entry :: "('l \<Rightarrow> string) \<Rightarrow> 'l model \<Rightarrow> string \<Rightarrow> nat \<Rightarrow> string" where
  "layer_entry str m layer_prefix i =
     ''========'' @ newline
     @ layer_prefix @ ''_'' @ str_nat i @ '': '' @ str (sublayers m ! i) @ newline @ newline"

declare show_loop.simps [simp del]
declare str_nat.simps [simp del]

section \<open>Broadcasting inside normalize\<close>

lemma collect_map_Inr: "collect (map (\<lambda>x. Inr (g x)) xs) = Inr (map g xs)"
  by (induction xs) simp_all

lemma stacked_map:
  assumes "\<And>t. t \<in> set ts \<Longrightarrow> F t = Inr (G t)"
  shows "stacked (map F ts) = Inr (Stack (map G ts))"
proof -
  have m: "map F ts = map (\<lambda>t. Inr (G t)) ts"
    by (rule map_cong[OF refl]) (rule assms)
  show ?thesis
    unfolding stacked_def m collect_map_Inr by simp
qed

text \<open>An operand combined with itself: the shapes agree on every axis.\<close>

lemma broadcast_self: "broadcast f x x = Inr (tmap (\<lambda>a. f a a) x)"
proof (induction x)
  case (Vec v)
  show ?case by (simp add: zip_same_conv_map)
next
  case (Stack ts)
  have "stacked (map (\<lambda>(t, u). broadcast f t u) (zip ts ts))
        = stacked (map (\<lambda>t. broadcast f t t) ts)"
    by (simp add: zip_same_conv_map comp_def)
  also have "\<dots> = Inr (Stack (map (tmap (\<lambda>a. f a a)) ts))"
    by (rule stacked_map) (rule Stack.IH)
  finally show ?case by simp
qed

lemma rank_tmap: "rank (tmap g x) = rank x"
proof (induction x)
  case (Vec v)
  show ?case by simp
next
  case (Stack ts)
  then show ?case by (cases ts) simp_all
qed

lemma rank_sum_last_keepdims: "rank (sum_last_keepdims x) = rank x"
proof (induction x)
  case (Vec v)
  show ?case by simp
next
  case (Stack ts)
  then show ?case by (cases ts) simp_all
qed

text \<open>An operand combined with a reduction of itself that kept the reduced axis: the
  ranks agree, the leading axes agree, and the last axis of the reduction has length 1.\<close>

lemma broadcast_keepdims:
  "broadcast f x (tmap g (sum_last_keepdims (tmap h x)))
   = Inr (map_slices (\<lambda>v. map (\<lambda>a. f a (g (ssum (map h v)))) v) x)"
proof (induction x)
  case (Vec v)
  show ?case
  proof (cases "length v = 1")
    case True
    then obtain a where "v = [a]" by (cases v) auto
    then show ?thesis by simp
  next
    case False
    then show ?thesis by simp
  qed
next
  case (Stack ts)
  let ?k = "\<lambda>t. tmap g (sum_last_keepdims (tmap h t))"
  let ?F = "\<lambda>v. map (\<lambda>a. f a (g (ssum (map h v)))) v"
  have r: "rank (Stack (map ?k ts)) = rank (Stack ts)"
    by (cases ts) (simp_all add: rank_tmap rank_sum_last_keepdims)
  have "broadcast f (Stack ts) (Stack (map ?k ts))
        = stacked (map (\<lambda>(t, u). broadcast f t u) (zip ts (map ?k ts)))"
    using r by (subst broadcast.simps) simp
  also have "zip ts (map ?k ts) = map (\<lambda>t. (t, ?k t)) ts"
    by (induction ts) simp_all
  also have "stacked (map (\<lambda>(t, u). broadcast f t u) (map (\<lambda>t. (t, ?k t)) ts))
             = stacked (map (\<lambda>t. broadcast f t (?k t)) ts)"
    by (simp add: comp_def)
  also have "\<dots> = Inr (Stack (map (map_slices ?F) ts))"
    by (rule stacked_map) (rule Stack.IH)
  finally have c: "broadcast f (Stack ts) (Stack (map ?k ts))
      = Inr (Stack (map (map_slices ?F) ts))" .
  have e: "tmap g (sum_last_keepdims (tmap h (Stack ts))) = Stack (map ?k ts)"
    by simp
  show ?case by (simp only: e c map_slices.simps)
qed

lemma normalize_slices: "normalize x = Inr (map_slices unit_slice x)"
proof -
  have u: "unit_slice = (\<lambda>v. map (\<lambda>a. sdiv a (ssqrt (ssum (map (\<lambda>a. smul a a) v)))) v)"
    by (rule ext) (simp add: unit_slice_def l2_norm_def sum_squares_def)
  show ?thesis
    by (simp add: normalize_def multiply_def divide_def sqrt_t_def broadcast_self
        broadcast_keepdims u)
qed

lemma normalize2_slices: "normalize2 x = Inr (map_slices unit_slice x)"
  using normalize_slices[of x] by (simp add: normalize_def normalize2_def)

lemma slices_map_slices: "slices (map_slices F x) = map F (slices x)"
  by (induction x) (simp_all add: map_concat comp_def cong: map_cong)




section \<open>Arithmetic of one slice\<close>

lemma foldl_sadd_Fin: "foldl sadd (Fin a) (map Fin rs) = Fin (a + sum_list rs)"
  by (induction rs arbitrary: a) (simp_all add: add.assoc)

lemma ssum_Fin: "ssum (map Fin rs) = Fin (sum_list rs)"
  by (simp add: ssum_def foldl_sadd_Fin)

lemma finite_slice_Fin: "finite_slice v \<Longrightarrow> \<exists>rs. v = map Fin rs"
proof (induction v)
  case Nil
  show ?case by simp
next
  case (Cons a v)
  then obtain rs where "v = map Fin rs" by (auto simp: finite_slice_def)
  moreover from Cons.prems obtain r where "a = Fin r"
    by (cases a) (simp_all add: finite_slice_def)
  ultimately have "a # v = map Fin (r # rs)" by simp
  then show ?case by (rule exI[of _ "r # rs"])
qed

lemma sum_squares_Fin: "sum_squares (map Fin rs) = Fin (\<Sum>r\<leftarrow>rs. r * r)"
proof -
  have "map (\<lambda>a. smul a a) (map Fin rs) = map Fin (map (\<lambda>r. r * r) rs)"
    by simp
  then show ?thesis by (simp only: sum_squares_def ssum_Fin)
qed

lemma sum_list_squares_nonneg: "0 \<le> (\<Sum>r\<leftarrow>rs. r * r)" for rs :: "real list"
  by (induction rs) simp_all

lemma l2_norm_Fin: "l2_norm (map Fin rs) = Fin (sqrt (\<Sum>r\<leftarrow>rs. r * r))"
  using sum_list_squares_nonneg[of rs]
  by (simp add: l2_norm_def sum_squares_Fin not_less[symmetric])








lemma foldl_sadd_NaN: "foldl sadd NaN v = NaN"
  by (induction v) simp_all

lemma sum_squares_NaN: "0 < n \<Longrightarrow> sum_squares (replicate n NaN) = NaN"
  by (cases n) (simp_all add: sum_squares_def ssum_def foldl_sadd_NaN)

lemma l2_norm_zero: "l2_norm (replicate n (Fin 0)) = Fin 0"
  using l2_norm_Fin[of "replicate n 0"] by (simp add: sum_list_replicate comp_def)

lemma unit_slice_zero: "unit_slice (replicate n (Fin 0)) = replicate n NaN"
  by (simp add: unit_slice_def l2_norm_zero)

section \<open>Properties of normalize and normalize2\<close>



text \<open>
  C3. For every tensor, \<open>normalize\<close> returns the tensor with every slice along the last
  axis divided, entry by entry, by the square root of the sum of the squares of that
  slice; it never raises, and \<open>normalize2\<close> computes the same.
\<close>

theorem normalize_divides_by_l2_norm:
  "normalize x = Inr (map_slices (\<lambda>v. map (\<lambda>a. sdiv a (ssqrt (sum_squares v))) v) x)
   \<and> normalize2 x = normalize x"
proof -
  have "unit_slice = (\<lambda>v. map (\<lambda>a. sdiv a (ssqrt (sum_squares v))) v)"
    by (rule ext) (simp add: unit_slice_def l2_norm_def)
  then show ?thesis
    using normalize_slices[of x] normalize2_slices[of x] by simp
qed

theorem normalize_divides_by_l2_norm_witness:
  "normalize (Stack [Vec [Fin 3, Fin 4], Vec [Fin 0, Fin 0]])
     = Inr (Stack [Vec [Fin (3/5), Fin (4/5)], Vec [NaN, NaN]])
   \<and> normalize2 (Stack [Vec [Fin 3, Fin 4], Vec [Fin 0, Fin 0]])
     = Inr (Stack [Vec [Fin (3/5), Fin (4/5)], Vec [NaN, NaN]])"
proof -
  have "sqrt 25 = 5"
    by (rule real_sqrt_unique) simp_all
  then show ?thesis
    using normalize_divides_by_l2_norm [of "Stack [Vec [Fin 3, Fin 4], Vec [Fin 0, Fin 0]]"]
    by (simp add: sum_squares_def ssum_def)
qed

text \<open>
  C9. On a slice along the last axis that holds only zeros, the denominator of
  \<open>normalize\<close> and of \<open>normalize2\<close> is 0 and the division is carried out all the same:
  neither function has an error branch (each returns a tensor on every input), and every
  entry of that slice of the result is NaN, the value of 0/0, so that the slice of the
  result does not have Euclidean length 1.
\<close>

theorem normalize_zero_slice:
  assumes "i < length (slices x)"
    and "slices x ! i = replicate n (Fin 0)"
  shows "l2_norm (slices x ! i) = Fin 0
         \<and> (\<exists>y. normalize x = Inr y \<and> normalize2 x = Inr y
                \<and> slices y ! i = replicate n NaN
                \<and> sum_squares (slices y ! i) \<noteq> Fin 1)
         \<and> (\<forall>z. \<exists>w. normalize z = Inr w \<and> normalize2 z = Inr w)"
proof -
  have "sum_squares (replicate n NaN) \<noteq> Fin 1"
  proof (cases "0 < n")
    case True
    then show ?thesis by (simp add: sum_squares_NaN)
  next
    case False
    then show ?thesis by (simp add: sum_squares_def ssum_def)
  qed
  then show ?thesis
    using assms
    by (simp add: normalize_slices normalize2_slices slices_map_slices l2_norm_zero
        unit_slice_zero)
qed

theorem normalize_zero_slice_witness:
  "1 < length (slices (Stack [Vec [Fin 3, Fin 4], Vec [Fin 0, Fin 0]]))
   \<and> slices (Stack [Vec [Fin 3, Fin 4], Vec [Fin 0, Fin 0]]) ! 1 = replicate 2 (Fin 0)
   \<and> l2_norm [Fin 0, Fin 0] = Fin 0
   \<and> (\<exists>y. normalize (Stack [Vec [Fin 3, Fin 4], Vec [Fin 0, Fin 0]]) = Inr y
          \<and> normalize2 (Stack [Vec [Fin 3, Fin 4], Vec [Fin 0, Fin 0]]) = Inr y
          \<and> slices y ! 1 = [NaN, NaN]
          \<and> sum_squares (slices y ! 1) \<noteq> Fin 1)"
  using normalize_zero_slice [of 1 "Stack [Vec [Fin 3, Fin 4], Vec [Fin 0, Fin 0]]" 2]
  by (simp add: numeral_2_eq_2)



section \<open>Properties of cosine_similarity\<close>

lemma vec_rows_map_Vec: "vec_rows (map Vec rs) = Some rs"
  by (induction rs) simp_all

lemma vec_rows_Some: "vec_rows ts = Some rs \<Longrightarrow> ts = map Vec rs"
proof (induction ts arbitrary: rs)
  case Nil
  then show ?case by simp
next
  case (Cons t ts)
  then show ?case by (cases t) (auto split: option.splits)
qed

lemma rows_of_Some: "rows_of x = Some rs \<longleftrightarrow> x = Stack (map Vec rs)"
  by (cases x) (auto simp: vec_rows_map_Vec dest: vec_rows_Some)

lemma cosine_similarity_rows:
  assumes "rows_of x1 = Some a" and "rows_of x2 = Some b"
    and "\<forall>r\<in>set a. \<forall>c\<in>set b. length r = length c"
  shows "cosine_similarity x1 x2
         = Inr (Array (Stack (map Vec (map (\<lambda>r. map (\<lambda>c. dot r c) b) a))))"
proof -
  have x: "x1 = Stack (map Vec a)" "x2 = Stack (map Vec b)"
    using assms(1,2) by (simp_all add: rows_of_Some)
  show ?thesis
    using assms(3)
    by (simp add: x cosine_similarity_def vec_rows_map_Vec list_all_iff comp_def)
qed


lemma dot_Fin:
  assumes "length rs = length qs"
  shows "dot (map Fin rs) (map Fin qs) = Fin (\<Sum>(r, q)\<leftarrow>zip rs qs. r * q)"
proof -
  have "map2 smul (map Fin rs) (map Fin qs) = map Fin (map (\<lambda>(r, q). r * q) (zip rs qs))"
    by (simp add: zip_map_map split_def)
  then show ?thesis by (simp only: dot_def ssum_Fin)
qed

lemma cosine_unit:
  assumes "finite_slice u" and "finite_slice v" and "length u = length v"
    and "sum_squares u = Fin 1" and "sum_squares v = Fin 1"
  shows "cosine u v = dot u v"
proof -
  obtain rs qs where u: "u = map Fin rs" and v: "v = map Fin qs"
    using assms(1,2) finite_slice_Fin by blast
  have "length rs = length qs" using assms(3) by (simp add: u v)
  then obtain d where d: "dot u v = Fin d" by (simp add: u v dot_Fin)
  have "l2_norm u = Fin 1" "l2_norm v = Fin 1"
    using assms(4,5) by (simp_all add: l2_norm_def)
  then show ?thesis by (simp add: cosine_def d)
qed

text \<open>
  C6. For two-dimensional \<open>x1\<close> with m rows and \<open>x2\<close> with n rows of one common length,
  \<open>cosine_similarity\<close> returns the m-by-n matrix \<open>x1 @ x2.T\<close>: its entry (i, j) is
  the dot product of row i of \<open>x1\<close> with row j of \<open>x2\<close>. Whenever both rows have finite
  entries and unit length, that entry is the cosine similarity of the two rows.
\<close>

theorem cosine_similarity_entries:
  assumes "rows_of x1 = Some a" and "rows_of x2 = Some b"
    and "\<forall>r\<in>set a. \<forall>c\<in>set b. length r = length c"
  shows "\<exists>m. cosine_similarity x1 x2 = Inr (Array (Stack (map Vec m)))
           \<and> length m = length a
           \<and> (\<forall>i<length a. length (m ! i) = length b
                \<and> (\<forall>j<length b. m ! i ! j = dot (a ! i) (b ! j)
                     \<and> (finite_slice (a ! i) \<and> sum_squares (a ! i) = Fin 1
                          \<and> finite_slice (b ! j) \<and> sum_squares (b ! j) = Fin 1
                          \<longrightarrow> m ! i ! j = cosine (a ! i) (b ! j))))"
proof -
  let ?m = "map (\<lambda>r. map (\<lambda>c. dot r c) b) a"
  have "cosine (a ! i) (b ! j) = dot (a ! i) (b ! j)"
    if "i < length a" "j < length b" "finite_slice (a ! i)" "sum_squares (a ! i) = Fin 1"
      "finite_slice (b ! j)" "sum_squares (b ! j) = Fin 1" for i j
  proof -
    have "length (a ! i) = length (b ! j)"
      using assms(3) that(1,2) by simp
    then show ?thesis using that by (intro cosine_unit) simp_all
  qed
  then have "\<forall>i<length a. length (?m ! i) = length b
                \<and> (\<forall>j<length b. ?m ! i ! j = dot (a ! i) (b ! j)
                     \<and> (finite_slice (a ! i) \<and> sum_squares (a ! i) = Fin 1
                          \<and> finite_slice (b ! j) \<and> sum_squares (b ! j) = Fin 1
                          \<longrightarrow> ?m ! i ! j = cosine (a ! i) (b ! j)))"
    by simp
  moreover have "cosine_similarity x1 x2 = Inr (Array (Stack (map Vec ?m)))"
    by (rule cosine_similarity_rows[OF assms])
  moreover have "length ?m = length a" by simp
  ultimately show ?thesis by blast
qed

theorem cosine_similarity_entries_witness:
  "rows_of (Stack [Vec [Fin (3/5), Fin (4/5)], Vec [Fin 1, Fin 2]])
     = Some [[Fin (3/5), Fin (4/5)], [Fin 1, Fin 2]]
   \<and> rows_of (Stack [Vec [Fin 1, Fin 0]]) = Some [[Fin 1, Fin 0]]
   \<and> sum_squares [Fin (3/5), Fin (4/5)] = Fin 1
   \<and> sum_squares [Fin 1, Fin 0] = Fin 1
   \<and> (\<exists>m. cosine_similarity (Stack [Vec [Fin (3/5), Fin (4/5)], Vec [Fin 1, Fin 2]])
              (Stack [Vec [Fin 1, Fin 0]]) = Inr (Array (Stack (map Vec m)))
          \<and> length m = 2 \<and> length (m ! 0) = 1
          \<and> m ! 0 ! 0 = dot [Fin (3/5), Fin (4/5)] [Fin 1, Fin 0]
          \<and> m ! 0 ! 0 = cosine [Fin (3/5), Fin (4/5)] [Fin 1, Fin 0]
          \<and> m ! 1 ! 0 = dot [Fin 1, Fin 2] [Fin 1, Fin 0])"
proof -
  let ?a = "[[Fin (3/5), Fin (4/5)], [Fin 1, Fin 2]]"
  let ?b = "[[Fin 1, Fin 0]]"
  have h1: "rows_of (Stack [Vec [Fin (3/5), Fin (4/5)], Vec [Fin 1, Fin 2]]) = Some ?a"
    by simp
  have h2: "rows_of (Stack [Vec [Fin 1, Fin 0]]) = Some ?b"
    by simp
  have h3: "\<forall>r\<in>set ?a. \<forall>c\<in>set ?b. length r = length c"
    by simp
  have u: "sum_squares [Fin (3/5), Fin (4/5)] = Fin 1" "sum_squares [Fin 1, Fin 0] = Fin 1"
    by (simp_all add: sum_squares_def ssum_def)
  have f: "finite_slice [Fin (3/5), Fin (4/5)]" "finite_slice [Fin 1, Fin 0]"
    by (simp_all add: finite_slice_def)
  from cosine_similarity_entries [OF h1 h2 h3] obtain m where
    m: "cosine_similarity (Stack [Vec [Fin (3/5), Fin (4/5)], Vec [Fin 1, Fin 2]])
          (Stack [Vec [Fin 1, Fin 0]]) = Inr (Array (Stack (map Vec m)))"
      "length m = length ?a"
    and e: "\<forall>i<length ?a. length (m ! i) = length ?b
              \<and> (\<forall>j<length ?b. m ! i ! j = dot (?a ! i) (?b ! j)
                   \<and> (finite_slice (?a ! i) \<and> sum_squares (?a ! i) = Fin 1
                        \<and> finite_slice (?b ! j) \<and> sum_squares (?b ! j) = Fin 1
                        \<longrightarrow> m ! i ! j = cosine (?a ! i) (?b ! j)))"
    by blast
  have p: "0 < length ?a" "0 < length ?b" "1 < length ?a"
    by simp_all
  have n: "?a ! 0 = [Fin (3/5), Fin (4/5)]" "?b ! 0 = [Fin 1, Fin 0]" "?a ! 1 = [Fin 1, Fin 2]"
    by simp_all
  note r0 = e [THEN spec, of 0, THEN mp, OF p(1)]
  note r00 = r0 [THEN conjunct2, THEN spec, of 0, THEN mp, OF p(2), unfolded n]
  note r10 = e [THEN spec, of 1, THEN mp, OF p(3), THEN conjunct2, THEN spec, of 0, THEN mp,
      OF p(2), unfolded n]
  have e0: "length (m ! 0) = 1"
      "m ! 0 ! 0 = dot [Fin (3/5), Fin (4/5)] [Fin 1, Fin 0]"
      "m ! 0 ! 0 = cosine [Fin (3/5), Fin (4/5)] [Fin 1, Fin 0]"
  proof -
    show "length (m ! 0) = 1" using r0 [THEN conjunct1] by simp
    show "m ! 0 ! 0 = dot [Fin (3/5), Fin (4/5)] [Fin 1, Fin 0]" using r00 by blast
    show "m ! 0 ! 0 = cosine [Fin (3/5), Fin (4/5)] [Fin 1, Fin 0]" using r00 u f by blast
  qed
  have e1: "m ! 1 ! 0 = dot [Fin 1, Fin 2] [Fin 1, Fin 0]"
    using r10 by blast
  from m(2) have "length m = 2" by simp
  with h1 h2 u m(1) e0 e1 show ?thesis by blast
qed

text \<open>
  C6, the converse. The dot product of two rows can be their cosine similarity although
  neither row has unit length: the rows (2, 0) and (1/2, 0) have dot product 1 and
  cosine similarity 1.
\<close>

theorem cosine_similarity_entries_counterexample:
  "cosine_similarity (Stack [Vec [Fin 2, Fin 0]]) (Stack [Vec [Fin (1/2), Fin 0]])
     = Inr (Array (Stack [Vec [Fin 1]]))
   \<and> cosine [Fin 2, Fin 0] [Fin (1/2), Fin 0] = Fin 1
   \<and> sum_squares [Fin 2, Fin 0] \<noteq> Fin 1
   \<and> sum_squares [Fin (1/2), Fin 0] \<noteq> Fin 1"
proof -
  have s: "sqrt (1/4) = 1/2"
    by (simp add: real_sqrt_divide)
  show ?thesis
    by (simp add: cosine_similarity_def dot_def cosine_def l2_norm_def
        sum_squares_def ssum_def s)
qed



section \<open>Properties of the encoder and of the Siamese model\<close>

lemma sqrt_25: "sqrt 25 = 5"
  by (rule real_sqrt_unique) simp_all

lemma normalize_3_4:
  "normalize (Stack [Vec [Fin 3, Fin 4]]) = Inr (Stack [Vec [Fin (3/5), Fin (4/5)]])"
  "normalize2 (Stack [Vec [Fin 3, Fin 4]]) = Inr (Stack [Vec [Fin (3/5), Fin (4/5)]])"
  "normalize2 (Stack [Vec [Fin 4, Fin 3]]) = Inr (Stack [Vec [Fin (4/5), Fin (3/5)]])"
  by (simp_all add: normalize_slices normalize2_slices unit_slice_def l2_norm_def
      sum_squares_def ssum_def sqrt_25)



text \<open>
  C5. \<open>Siamese.forward\<close> encodes its first input, then its second, both with the model's
  one encoder \<open>sub\<close>, and returns \<open>cosine_similarity\<close> of the two encodings; an error
  of the first encoding comes before one of the second.
\<close>

theorem Siamese_forward_cosine:
  "Siamese_forward lib self x1 x2
     = and_then (Sub_forward lib (sub self) x1)
         (\<lambda>e1. and_then (Sub_forward lib (sub self) x2) (\<lambda>e2. cosine_similarity e1 e2))"
  by (simp add: Siamese_forward_def and_then_def)

theorem Siamese_forward_cosine_witness:
  "Siamese_forward identity_torch (Siamese_init identity_torch 5 3)
     (Stack [Vec [Fin 3, Fin 4]]) (Stack [Vec [Fin 4, Fin 3]])
   = Inr (Array (Stack [Vec [Fin (24/25)]]))"
  using Siamese_forward_cosine [of identity_torch "Siamese_init identity_torch 5 3"
      "Stack [Vec [Fin 3, Fin 4]]" "Stack [Vec [Fin 4, Fin 3]]"]
  by (simp add: Sub_forward_def Siamese_init_def identity_torch_def and_then_def normalize_3_4
      cosine_similarity_def dot_def ssum_def)



section \<open>Properties of show_layers\<close>

lemma show_loop_entries:
  "show_loop str m p i out
   = out @ concat (map (layer_entry str m p) [i..<length (sublayers m)])"
proof (induction str m p i out rule: show_loop.induct)
  case (1 str m p i out)
  show ?case
  proof (cases "i < length (sublayers m)")
    case True
    then have "[i..<length (sublayers m)] = i # [Suc i..<length (sublayers m)]"
      by (simp add: upt_conv_Cons)
    moreover have "print (p @ ''_'' @ str_nat i @ '': '' @ str (sublayers m ! i) @ newline)
                     (print ''========'' out) = out @ layer_entry str m p i"
      by (simp add: print_def layer_entry_def)
    ultimately show ?thesis
      using True "1.IH" by (subst show_loop.simps) simp
  next
    case False
    then show ?thesis by (subst show_loop.simps) simp
  qed
qed

text \<open>
  C8. \<open>show_layers\<close> leaves the model as it was and appends to the output, first the
  line with the number of sublayers (followed by an empty line), then one entry for
  each sublayer in the order of the indices 0, 1, ... and nothing after the last. An
  entry is the separator line, the line of the prefix, an underscore, the index in
  decimal, a colon and the text of the sublayer, and an empty line.
\<close>

theorem show_layers_output:
  "show_layers str m layer_prefix out
   = (m, out @ ''Total layers: '' @ str_nat (length (sublayers m)) @ newline @ newline
         @ concat (map (\<lambda>i. ''========'' @ newline
                          @ layer_prefix @ ''_'' @ str_nat i @ '': ''
                          @ str (sublayers m ! i) @ newline @ newline)
              [0..<length (sublayers m)]))"
proof -
  have "layer_entry str m layer_prefix
        = (\<lambda>i. ''========'' @ newline @ layer_prefix @ ''_'' @ str_nat i @ '': ''
                @ str (sublayers m ! i) @ newline @ newline)"
    by (rule ext) (simp add: layer_entry_def)
  then show ?thesis
    using show_loop_entries [of str m layer_prefix 0]
    by (simp add: show_layers_def print_def)
qed

theorem show_layers_output_witness:
  "show_layers (\<lambda>l. l) \<lparr>sublayers = [''Embedding_500_128'', ''LSTM_128'']\<rparr>
     ''Serial.sublayers'' []
   = (\<lparr>sublayers = [''Embedding_500_128'', ''LSTM_128'']\<rparr>,
      ''Total layers: 2'' @ newline @ newline
      @ ''========'' @ newline @ ''Serial.sublayers_0: Embedding_500_128'' @ newline @ newline
      @ ''========'' @ newline @ ''Serial.sublayers_1: LSTM_128'' @ newline @ newline)"
  using show_layers_output [of "\<lambda>l. l" "\<lparr>sublayers = [''Embedding_500_128'', ''LSTM_128'']\<rparr>"
      "''Serial.sublayers''" "[]"]
  by (simp add: str_nat.simps)

end
